theory Spec2Isabelle
  imports Main "HOL-Library.Sublist"
begin

section \<open>Strings\<close>

text \<open>
  A Python \<open>str\<close> is modelled as a \<open>string\<close> (a list of characters). The only
  string operations \<open>key_file_cleaner.py\<close> uses are \<open>startswith\<close>, \<open>endswith\<close>
  and \<open>lower\<close>. Every pattern the program compares against is plain ASCII, and
  \<open>lower\<close> is modelled on the ASCII letters (the characters \<open>A\<close> to \<open>Z\<close> move
  to \<open>a\<close> to \<open>z\<close>, every other character stays as it is).
\<close>

definition startswith :: "string \<Rightarrow> string \<Rightarrow> bool" where
  "startswith s p = prefix p s"

definition endswith :: "string \<Rightarrow> string \<Rightarrow> bool" where
  "endswith s p = suffix p s"

text \<open>\<open>s.startswith(tuple)\<close> and \<open>s.endswith(tuple)\<close>: some member matches.\<close>

definition startswith_any :: "string \<Rightarrow> string list \<Rightarrow> bool" where
  "startswith_any s ps = list_ex (startswith s) ps"

definition endswith_any :: "string \<Rightarrow> string list \<Rightarrow> bool" where
  "endswith_any s ps = list_ex (endswith s) ps"

definition ascii_uppercase :: string where
  "ascii_uppercase = ''ABCDEFGHIJKLMNOPQRSTUVWXYZ''"

definition ascii_lowercase :: string where
  "ascii_lowercase = ''abcdefghijklmnopqrstuvwxyz''"

definition lower_char :: "char \<Rightarrow> char" where
  "lower_char c =
     (case map_of (zip ascii_uppercase ascii_lowercase) c of
        None \<Rightarrow> c
      | Some d \<Rightarrow> d)"

definition lower :: "string \<Rightarrow> string" where
  "lower s = map lower_char s"

section \<open>Exceptions\<close>

text \<open>
  The exceptions the program raises or meets. \<open>OSError\<close> stands for the failures of
  \<open>open\<close> and \<open>os.remove\<close> (permissions, a vanished file); \<open>PlainException\<close> is the
  bare \<open>Exception("file is None")\<close> of the walker.
\<close>

datatype error =
    TypeError
  | ValueError
  | FileNotFoundError
  | UnicodeDecodeError
  | OSError
  | PlainException

section \<open>The line filter\<close>

text \<open>
  \<open>line_to_keep(line)\<close>: the argument may be \<open>None\<close>, so it is a \<open>string option\<close>.
\<close>

definition line_to_keep :: "string option \<Rightarrow> error + bool" where
  "line_to_keep line =
     (case line of
        None \<Rightarrow> Inl TypeError
      | Some l \<Rightarrow> Inr (\<not> startswith l ''$''))"

section \<open>The junk test of the walker\<close>

definition file_extensions_to_remove :: "string list" where
  "file_extensions_to_remove = [''.ansa'', ''.hm'', ''.mvw'', ''.catpart'', ''.cfile'']"

text \<open>The list as the source writes it (\<open>.lock\<close> twice), with \<open>d3p\<close> appended on demand.\<close>

definition file_starts_to_remove :: "bool \<Rightarrow> string list" where
  "file_starts_to_remove remove_d3p =
     [''._'', ''ansa'', ''.lock'', ''d3d'', ''d3f'', ''lsrun'', ''.lock'', ''mess'', ''d3h'',
      ''lspost'']
     @ (if remove_d3p then [''d3p''] else [])"

text \<open>The condition of the first \<open>if\<close> in the loop body of \<open>remove_lines_in_files\<close>.\<close>

definition is_junk :: "string \<Rightarrow> bool \<Rightarrow> bool" where
  "is_junk file remove_d3p =
     (endswith_any (lower file) file_extensions_to_remove
      \<or> startswith_any (lower file) (file_starts_to_remove remove_d3p))"

section \<open>The file system, the log and the console\<close>

text \<open>
  What \<open>open(path, 'r').readlines()\<close> meets in a file: text, or bytes that do not
  decode under the encoding assumed for reading (\<open>UnicodeDecodeError\<close>). The text is the
  decoded one with newlines already translated to the line feed, and what is written is read
  back as written (the encoding for reading is the one for writing, the platform's line
  separator is the line feed).
\<close>

datatype content = Text string | Undecodable

record node =
  readable :: bool
  writable :: bool
  removable :: bool
  data :: content

text \<open>
  The log records of \<open>logging.info\<close> and \<open>logging.error\<close>, one constructor for each
  message format of the source, holding the values the message is formatted from (the
  text of the caught exception is left out).
\<close>

datatype log_entry =
    Info_Processed string int
  | Error_Decoding string
  | Error_Unhandled string
  | Info_Removed string int
  | Error_Failed_Remove string

text \<open>
  \<open>fs\<close> maps a path to the file there; \<open>listing\<close> gives, for a directory, what
  \<open>os.walk\<close> yields for it: the pairs of a root and the names of its files, in visiting
  order (the walker never reads the directory names of the triple). A listed name with no
  file behind it is a file that vanished after the directory was read.
\<close>

record state =
  fs :: "string \<rightharpoonup> node"
  listing :: "string \<rightharpoonup> (string \<times> string option list) list"
  logged :: "log_entry list"
  stdout :: "string list"

definition os_path_exists :: "state \<Rightarrow> string \<Rightarrow> bool" where
  "os_path_exists st p = (fs st p \<noteq> None)"

text \<open>\<open>os.path.isdir('')\<close> is false on every system.\<close>

definition os_path_isdir :: "state \<Rightarrow> string \<Rightarrow> bool" where
  "os_path_isdir st d = (d \<noteq> [] \<and> listing st d \<noteq> None)"

definition os_walk :: "state \<Rightarrow> string \<Rightarrow> (string \<times> string option list) list" where
  "os_walk st d = (case listing st d of None \<Rightarrow> [] | Some w \<Rightarrow> w)"

text \<open>\<open>os.path.join\<close> of two components, as on a POSIX system (\<open>posixpath.join\<close>).\<close>

definition os_path_join :: "string \<Rightarrow> string \<Rightarrow> string" where
  "os_path_join a b =
     (if startswith b ''/'' then b
      else if a = [] \<or> endswith a ''/'' then a @ b
      else a @ ''/'' @ b)"

definition os_remove :: "string \<Rightarrow> state \<Rightarrow> error + state" where
  "os_remove p st =
     (case fs st p of
        None \<Rightarrow> Inl FileNotFoundError
      | Some nd \<Rightarrow>
          if removable nd then Inr (st\<lparr>fs := (fs st)(p := None)\<rparr>) else Inl OSError)"

text \<open>\<open>file.readlines()\<close>: the text cut after every line feed, the line feeds kept.\<close>

fun readlines :: "string \<Rightarrow> string list" where
  "readlines [] = []"
| "readlines (c # cs) =
     (if c = CHR 0x0A then [c] # readlines cs
      else (case readlines cs of
              [] \<Rightarrow> [[c]]
            | l # ls \<Rightarrow> (c # l) # ls))"

text \<open>\<open>file.writelines(lines)\<close> writes the lines one after the other.\<close>

definition writelines :: "string list \<Rightarrow> string" where
  "writelines ls = concat ls"

section \<open>The key file rewriter\<close>

text \<open>The comprehension \<open>[line for line in lines if line_to_keep(line)]\<close>.\<close>

fun keep_lines :: "string list \<Rightarrow> error + string list" where
  "keep_lines [] = Inr []"
| "keep_lines (line # lines) =
     (case line_to_keep (Some line) of
        Inl e \<Rightarrow> Inl e
      | Inr k \<Rightarrow>
          (case keep_lines lines of
             Inl e \<Rightarrow> Inl e
           | Inr rest \<Rightarrow> Inr (if k then line # rest else rest)))"

text \<open>
  The body of the \<open>try\<close> of \<open>process_file\<close>. Every failure in it happens before the
  file is opened for writing, so a failure leaves the state as it was.
\<close>

definition process_file_try :: "string \<Rightarrow> state \<Rightarrow> error + state" where
  "process_file_try file_path st =
     (case fs st file_path of
        None \<Rightarrow> Inl FileNotFoundError
      | Some nd \<Rightarrow>
          if \<not> readable nd then Inl OSError
          else (case data nd of
                  Undecodable \<Rightarrow> Inl UnicodeDecodeError
                | Text s \<Rightarrow>
                    (let lines = readlines s;
                         count = int (length lines)
                     in case keep_lines lines of
                          Inl e \<Rightarrow> Inl e
                        | Inr new_lines \<Rightarrow>
                            (let count' = count - int (length new_lines)
                             in if \<not> writable nd then Inl OSError
                                else Inr (st\<lparr>fs := (fs st)(file_path \<mapsto>
                                                  nd\<lparr>data := Text (writelines new_lines)\<rparr>),
                                             logged := logged st @
                                                  [Info_Processed file_path count']\<rparr>)))))"

definition process_file :: "string option \<Rightarrow> state \<Rightarrow> error + state" where
  "process_file file_path st =
     (case file_path of
        None \<Rightarrow> Inl ValueError
      | Some p \<Rightarrow>
          if p = [] then Inl ValueError
          else if \<not> os_path_exists st p then Inl FileNotFoundError
          else (case process_file_try p st of
                  Inr st' \<Rightarrow> Inr st'
                | Inl e \<Rightarrow>
                    if e = UnicodeDecodeError
                    then Inr (st\<lparr>logged := logged st @ [Error_Decoding p]\<rparr>)
                    else Inr (st\<lparr>logged := logged st @ [Error_Unhandled p]\<rparr>)))"

section \<open>The tree walker\<close>

text \<open>
  The inner loop \<open>for file in files\<close>, with the counter \<open>files_removed\<close> and the state
  threaded through. A raise leaves the loop with the exception and the state reached.
\<close>

fun walk_files ::
  "bool \<Rightarrow> string \<Rightarrow> string option list \<Rightarrow> int \<times> state \<Rightarrow> (error \<times> state) + (int \<times> state)"
where
  "walk_files remove_d3p root [] acc = Inr acc"
| "walk_files remove_d3p root (file # files) (files_removed, st) =
     (case file of
        None \<Rightarrow> Inl (PlainException, st)
      | Some f \<Rightarrow>
          (let file_path = os_path_join root f
           in if is_junk f remove_d3p then
                (case os_remove file_path st of
                   Inr st' \<Rightarrow>
                     walk_files remove_d3p root files
                       (files_removed + 1,
                        st'\<lparr>logged := logged st' @
                               [Info_Removed file_path (files_removed + 1)]\<rparr>)
                 | Inl e \<Rightarrow>
                     walk_files remove_d3p root files
                       (files_removed,
                        st\<lparr>logged := logged st @ [Error_Failed_Remove file_path]\<rparr>))
              else if endswith_any f [''.key'', ''.k''] then
                (case process_file (Some file_path) st of
                   Inl e \<Rightarrow>
                     Inl (e, st\<lparr>logged := logged st @ [Error_Unhandled file_path]\<rparr>)
                 | Inr st' \<Rightarrow> walk_files remove_d3p root files (files_removed, st'))
              else walk_files remove_d3p root files (files_removed, st)))"

text \<open>The outer loop \<open>for root, dirs, files in os.walk(directory)\<close>.\<close>

fun walk_dirs ::
  "bool \<Rightarrow> (string \<times> string option list) list \<Rightarrow> int \<times> state \<Rightarrow>
   (error \<times> state) + (int \<times> state)"
where
  "walk_dirs remove_d3p [] acc = Inr acc"
| "walk_dirs remove_d3p ((root, files) # rest) acc =
     (case walk_files remove_d3p root files acc of
        Inl x \<Rightarrow> Inl x
      | Inr acc' \<Rightarrow> walk_dirs remove_d3p rest acc')"

definition remove_lines_in_files ::
  "string option \<Rightarrow> bool \<Rightarrow> state \<Rightarrow> (error \<times> state) + state"
where
  "remove_lines_in_files directory remove_d3p st =
     (case directory of
        None \<Rightarrow> Inl (TypeError, st)
      | Some d \<Rightarrow>
          if \<not> os_path_isdir st d then Inl (FileNotFoundError, st)
          else (case walk_dirs remove_d3p (os_walk st d) (0, st) of
                  Inl x \<Rightarrow> Inl x
                | Inr (n, st') \<Rightarrow>
                    Inr (st'\<lparr>stdout := stdout st' @
                               [''All .key files have been processed.'']\<rparr>)))"

section \<open>The shape of the lines of a text\<close>




section \<open>Concrete inputs\<close>

definition plain_file :: "string \<Rightarrow> node" where
  "plain_file s = \<lparr>readable = True, writable = True, removable = True, data = Text s\<rparr>"

definition empty_disk :: state where
  "empty_disk = \<lparr>fs = Map.empty, listing = Map.empty, logged = [], stdout = []\<rparr>"

definition deck_lines :: "string list" where
  "deck_lines =
     [''$comment'' @ [CHR 0x0A], ''NODE 1 2 3'' @ [CHR 0x0A], ''$another'' @ [CHR 0x0A]]"

definition deck_disk :: state where
  "deck_disk = empty_disk\<lparr>fs := [''run/model.key'' \<mapsto> plain_file (concat deck_lines)]\<rparr>"

text \<open>A key file whose bytes do not decode.\<close>

definition binary_disk :: state where
  "binary_disk =
     empty_disk\<lparr>fs := [''run/model.key'' \<mapsto>
        \<lparr>readable = True, writable = True, removable = True, data = Undecodable\<rparr>]\<rparr>"

text \<open>A directory whose listing names two key files that are no longer there.\<close>

definition vanished_disk :: state where
  "vanished_disk =
     empty_disk\<lparr>listing := [''run'' \<mapsto> [(''run'', [Some ''model.key'', Some ''other.k''])]]\<rparr>"


text \<open>A file whose name has a junk prefix and the key suffix.\<close>

definition ansa_disk :: state where
  "ansa_disk = empty_disk\<lparr>fs := [''run/ansa_model.key'' \<mapsto> plain_file (concat deck_lines)]\<rparr>"

section \<open>The branch taken for a file name\<close>

text \<open>
  The \<open>if\<close>/\<open>elif\<close> chain of the loop body of \<open>remove_lines_in_files\<close>, as the branch
  it takes for a file name: the junk test first, the key suffix second, else nothing.
\<close>

datatype action = Delete | Rewrite | Untouched

definition file_action :: "string \<Rightarrow> bool \<Rightarrow> action" where
  "file_action f remove_d3p =
     (if is_junk f remove_d3p then Delete
      else if endswith_any f [''.key'', ''.k''] then Rewrite
      else Untouched)"

section \<open>Lower case and the junk test\<close>

lemma lower_char_idem: "lower_char (lower_char c) = lower_char c"
  by (simp add: lower_char_def ascii_uppercase_def ascii_lowercase_def)

lemma lower_idem: "lower (lower s) = lower s"
  by (simp add: lower_def lower_char_idem)

lemmas junk_eval =
  lower_def lower_char_def ascii_uppercase_def ascii_lowercase_def is_junk_def
  endswith_any_def endswith_def file_extensions_to_remove_def suffix_to_prefix
  startswith_any_def startswith_def file_starts_to_remove_def

section \<open>Reading back what was written\<close>










lemma keep_lines_filter: "keep_lines ls = Inr (filter (\<lambda>l. \<not> startswith l ''$'') ls)"
  by (induction ls) (auto simp: line_to_keep_def)

section \<open>The line filter\<close>

text \<open>
  Claim C1, as amended. \<open>line_to_keep\<close> raises \<open>TypeError\<close> (the invalid-argument
  failure) on \<open>None\<close>; every other line \<open>L\<close> is kept if and only if it is empty or it is
  not empty and its first character is not the dollar sign. So the empty line is kept.
\<close>

theorem line_to_keep_spec:
  "line_to_keep None = Inl TypeError \<and>
   line_to_keep (Some L) = Inr (L = [] \<or> (L \<noteq> [] \<and> hd L \<noteq> CHR ''$''))"
  by (cases L) (auto simp: line_to_keep_def startswith_def)

theorem line_to_keep_spec_witness:
  "line_to_keep None = Inl TypeError \<and>
   line_to_keep (Some ''$x'') = Inr False \<and>
   line_to_keep (Some ''NODE'') = Inr True"
  using line_to_keep_spec [of "''$x''"] line_to_keep_spec [of "''NODE''"] by simp

text \<open>
  Claim C1 as the specification words it fails at the empty line: the line is kept, while
  ``not empty and the first character is not the dollar sign'' is false for it.
\<close>

theorem line_to_keep_empty_counterexample:
  "line_to_keep (Some []) = Inr True \<and> \<not> (([] :: string) \<noteq> [] \<and> hd [] \<noteq> CHR ''$'')"
  by (simp add: line_to_keep_def startswith_def)

section \<open>The junk classifier\<close>

text \<open>
  Claim C2. The junk test is a function of the file name and the flag alone. It holds if
  and only if the lower-cased name ends with one of the five extensions or starts with
  one of the nine prefixes, \<open>d3p\<close> being a tenth prefix when the flag is set. It does not
  tell apart two names with the same lower-cased form, nor a name from its lower-cased
  form. \<open>ANSA_model.hm\<close> is junk for both values of the flag, \<open>d3plot01\<close> is junk
  with the flag set and is not junk with the flag unset.
\<close>

theorem is_junk_spec:
  "(is_junk F B \<longleftrightarrow>
      (\<exists>e \<in> {''.ansa'', ''.hm'', ''.mvw'', ''.catpart'', ''.cfile''}. endswith (lower F) e)
    \<or> (\<exists>p \<in> {''._'', ''ansa'', ''.lock'', ''d3d'', ''d3f'', ''lsrun'', ''mess'', ''d3h'',
               ''lspost''} \<union> (if B then {''d3p''} else {}). startswith (lower F) p))
   \<and> (lower F = lower G \<longrightarrow> is_junk F B = is_junk G B)
   \<and> is_junk (lower F) B = is_junk F B
   \<and> is_junk ''ANSA_model.hm'' B
   \<and> is_junk ''d3plot01'' True
   \<and> \<not> is_junk ''d3plot01'' False"
  (is "?iff \<and> ?same \<and> ?lowered \<and> ?hm \<and> ?d3p_set \<and> ?d3p_unset")
proof (intro conjI)
  show ?iff
    unfolding is_junk_def endswith_any_def startswith_any_def file_extensions_to_remove_def
      file_starts_to_remove_def list_ex_iff
    by (cases B) auto
  show ?same by (simp add: is_junk_def)
  show ?lowered by (simp add: is_junk_def lower_idem)
  show ?hm by (simp add: junk_eval)
  show ?d3p_set by (simp add: junk_eval)
  show ?d3p_unset by (simp add: junk_eval)
qed

theorem is_junk_spec_witness:
  "lower ''ANSA_model.hm'' = lower ''ansa_MODEL.HM'' \<and>
   is_junk ''ANSA_model.hm'' True = is_junk ''ansa_MODEL.HM'' True"
proof -
  have h: "lower ''ANSA_model.hm'' = lower ''ansa_MODEL.HM''"
    by (simp add: lower_def lower_char_def ascii_uppercase_def ascii_lowercase_def)
  show ?thesis
    using h is_junk_spec [of "''ANSA_model.hm''" True "''ansa_MODEL.HM''"] by blast
qed

text \<open>
  Claim C10. Setting the flag only enlarges the junk set: a name that is junk with the
  flag unset is junk with the flag set.
\<close>

theorem is_junk_flag_mono: "is_junk F False \<Longrightarrow> is_junk F True"
  by (auto simp: is_junk_def startswith_any_def file_starts_to_remove_def)

theorem is_junk_flag_mono_witness:
  "is_junk ''model.ansa'' False \<and> is_junk ''model.ansa'' True"
proof -
  have h: "is_junk ''model.ansa'' False"
    by (simp add: junk_eval)
  show ?thesis using h is_junk_flag_mono [OF h] by simp
qed

section \<open>The key file rewriter\<close>

lemma process_file_try_text:
  assumes "fs st p = Some nd" "readable nd" "writable nd" "data nd = Text s"
  shows "process_file_try p st =
           Inr (st\<lparr>fs := (fs st)(p \<mapsto> nd\<lparr>data := Text (concat (filter (\<lambda>l. \<not> startswith l ''$'') (readlines s)))\<rparr>),
                   logged := logged st @ [Info_Processed p
                      (int (length (readlines s)) - int (length (filter (\<lambda>l. \<not> startswith l ''$'') (readlines s))))]\<rparr>)"
  using assms by (simp add: process_file_try_def keep_lines_filter writelines_def Let_def)

lemma process_file_text:
  assumes "p \<noteq> []" "fs st p = Some nd" "readable nd" "writable nd" "data nd = Text s"
  shows "process_file (Some p) st =
           Inr (st\<lparr>fs := (fs st)(p \<mapsto> nd\<lparr>data := Text (concat (filter (\<lambda>l. \<not> startswith l ''$'') (readlines s)))\<rparr>),
                   logged := logged st @ [Info_Processed p
                      (int (length (readlines s)) - int (length (filter (\<lambda>l. \<not> startswith l ''$'') (readlines s))))]\<rparr>)"
  using assms by (simp add: process_file_def os_path_exists_def process_file_try_text)

lemma readlines_deck: "readlines (concat deck_lines) = deck_lines"
  by (simp add: deck_lines_def)

lemma kept_deck: "filter (\<lambda>l. \<not> startswith l ''$'') deck_lines = [''NODE 1 2 3'' @ [CHR 0x0A]]"
  by (simp add: deck_lines_def startswith_def)








lemma key_suffix_nonempty: "endswith_any f [''.key'', ''.k''] \<Longrightarrow> f \<noteq> []"
  by (auto simp: endswith_any_def endswith_def)

lemma os_path_join_nonempty: "f \<noteq> [] \<Longrightarrow> os_path_join root f \<noteq> []"
  by (simp add: os_path_join_def)

lemma process_file_undecodable:
  assumes "p \<noteq> []" "fs st p = Some nd" "readable nd" "data nd = Undecodable"
  shows "process_file (Some p) st = Inr (st\<lparr>logged := logged st @ [Error_Decoding p]\<rparr>)"
  using assms by (simp add: process_file_def os_path_exists_def process_file_try_def)

lemma process_file_missing:
  assumes "p \<noteq> []" "\<not> os_path_exists st p"
  shows "process_file (Some p) st = Inl FileNotFoundError"
  using assms by (simp add: process_file_def)

lemma walk_files_undecodable:
  assumes "\<not> is_junk f b" "endswith_any f [''.key'', ''.k'']"
    "fs st (os_path_join root f) = Some nd" "readable nd" "data nd = Undecodable"
  shows "walk_files b root (Some f # rest) (n, st) =
         walk_files b root rest
           (n, st\<lparr>logged := logged st @ [Error_Decoding (os_path_join root f)]\<rparr>)"
proof -
  have "os_path_join root f \<noteq> []"
    using assms(2) by (simp add: key_suffix_nonempty os_path_join_nonempty)
  then have "process_file (Some (os_path_join root f)) st =
      Inr (st\<lparr>logged := logged st @ [Error_Decoding (os_path_join root f)]\<rparr>)"
    using assms by (simp add: process_file_undecodable)
  with assms show ?thesis by (simp add: Let_def)
qed

lemmas path_eval = os_path_join_def startswith_def endswith_def suffix_to_prefix

text \<open>
  Claim C5. \<open>None\<close> and the empty string are no path: \<open>process_file\<close> raises
  \<open>ValueError\<close> on them. For a path, which is not empty: when no file is there, \<open>process_file\<close>
  raises \<open>FileNotFoundError\<close> and nothing has been read or changed; when the file is
  there and is opened but its bytes do not decode, \<open>process_file\<close> returns normally,
  the files are as they were and the only effect is one decoding error in the log. In the
  walker such a key file does not stop the loop: it goes on with the remaining files.
\<close>

theorem process_file_missing_or_undecodable:
  "process_file None st = Inl ValueError
   \<and> process_file (Some []) st = Inl ValueError
   \<and> (p \<noteq> [] \<and> \<not> os_path_exists st p \<longrightarrow> process_file (Some p) st = Inl FileNotFoundError)
   \<and> (p \<noteq> [] \<and> fs st p = Some nd \<and> readable nd \<and> data nd = Undecodable \<longrightarrow>
        process_file (Some p) st = Inr (st\<lparr>logged := logged st @ [Error_Decoding p]\<rparr>))
   \<and> (\<not> is_junk f b \<and> endswith_any f [''.key'', ''.k'']
        \<and> fs st (os_path_join root f) = Some nd \<and> readable nd \<and> data nd = Undecodable \<longrightarrow>
        walk_files b root (Some f # rest) (n, st) =
        walk_files b root rest
          (n, st\<lparr>logged := logged st @ [Error_Decoding (os_path_join root f)]\<rparr>))"
  (is "?none \<and> ?empty \<and> (?m \<longrightarrow> ?M) \<and> (?u \<longrightarrow> ?U) \<and> (?w \<longrightarrow> ?W)")
proof (intro conjI impI)
  show ?none by (simp add: process_file_def)
  show ?empty by (simp add: process_file_def)
  show ?M if ?m using that by (simp add: process_file_missing)
  show ?U if ?u using that by (simp add: process_file_undecodable)
  show ?W if ?w using that by (simp add: walk_files_undecodable del: walk_files.simps)
qed

theorem process_file_missing_or_undecodable_witness:
  "\<not> os_path_exists empty_disk ''run/model.key''
   \<and> process_file (Some ''run/model.key'') empty_disk = Inl FileNotFoundError
   \<and> map_option data (fs binary_disk ''run/model.key'') = Some Undecodable
   \<and> process_file (Some ''run/model.key'') binary_disk =
        Inr (binary_disk\<lparr>logged := [Error_Decoding ''run/model.key'']\<rparr>)
   \<and> walk_files False ''run'' [Some ''model.key''] (0, binary_disk) =
        Inr (0, binary_disk\<lparr>logged := [Error_Decoding ''run/model.key'']\<rparr>)"
proof -
  let ?nd = "\<lparr>readable = True, writable = True, removable = True, data = Undecodable\<rparr>"
  have j: "os_path_join ''run'' ''model.key'' = ''run/model.key''"
    by (simp add: path_eval)
  have m: "''run/model.key'' \<noteq> [] \<and> \<not> os_path_exists empty_disk ''run/model.key''"
    by (simp add: os_path_exists_def empty_disk_def)
  have u: "''run/model.key'' \<noteq> [] \<and> fs binary_disk ''run/model.key'' = Some ?nd
      \<and> readable ?nd \<and> data ?nd = Undecodable"
    by (simp add: binary_disk_def)
  have w: "\<not> is_junk ''model.key'' False \<and> endswith_any ''model.key'' [''.key'', ''.k'']
      \<and> fs binary_disk (os_path_join ''run'' ''model.key'') = Some ?nd
      \<and> readable ?nd \<and> data ?nd = Undecodable"
    unfolding j by (simp add: junk_eval binary_disk_def)
  have l: "logged binary_disk = []"
    by (simp add: binary_disk_def empty_disk_def)
  show ?thesis
    using m u w l
      process_file_missing_or_undecodable [of empty_disk "''run/model.key''" ?nd "''model.key''" False "''run''" "[]" 0]
      process_file_missing_or_undecodable [of binary_disk "''run/model.key''" ?nd "''model.key''" False "''run''" "[]" 0]
    by (simp add: j)
qed

section \<open>The tree walker\<close>







lemma endswith_any_key: "endswith_any f [''.key'', ''.k''] = (endswith f ''.key'' \<or> endswith f ''.k'')"
  by (simp add: endswith_any_def)

text \<open>
  Claim C7. A file name that passes the junk test and has the key suffix takes the deleting
  branch. Every file name takes exactly one of the three branches, and the step of the
  walker for a file is the step of that branch: deleting (the file is gone and counted when
  the deletion succeeds, left as it is and logged when it fails, and never rewritten),
  rewriting by \<open>process_file\<close>, or nothing.
\<close>

theorem junk_before_key:
  "(is_junk f b \<and> (endswith f ''.key'' \<or> endswith f ''.k'') \<longrightarrow> file_action f b = Delete)
   \<and> walk_files b root (Some f # rest) (n, st) =
      (case file_action f b of
         Delete \<Rightarrow>
           (case fs st (os_path_join root f) of
              None \<Rightarrow>
                walk_files b root rest
                  (n, st\<lparr>logged := logged st @ [Error_Failed_Remove (os_path_join root f)]\<rparr>)
            | Some nd \<Rightarrow>
                if removable nd
                then walk_files b root rest
                  (n + 1, st\<lparr>fs := (fs st)(os_path_join root f := None),
                              logged := logged st @ [Info_Removed (os_path_join root f) (n + 1)]\<rparr>)
                else walk_files b root rest
                  (n, st\<lparr>logged := logged st @ [Error_Failed_Remove (os_path_join root f)]\<rparr>))
       | Rewrite \<Rightarrow>
           (case process_file (Some (os_path_join root f)) st of
              Inl e \<Rightarrow> Inl (e, st\<lparr>logged := logged st @ [Error_Unhandled (os_path_join root f)]\<rparr>)
            | Inr st' \<Rightarrow> walk_files b root rest (n, st'))
       | Untouched \<Rightarrow> walk_files b root rest (n, st))"
  by (simp add: file_action_def Let_def os_remove_def split: option.splits)

theorem junk_before_key_witness:
  "is_junk ''ansa_model.key'' False \<and> endswith ''ansa_model.key'' ''.key''
   \<and> file_action ''ansa_model.key'' False = Delete
   \<and> walk_files False ''run'' [Some ''ansa_model.key''] (0, ansa_disk) =
       Inr (1, ansa_disk\<lparr>fs := Map.empty, logged := [Info_Removed ''run/ansa_model.key'' 1]\<rparr>)"
proof -
  have j: "os_path_join ''run'' ''ansa_model.key'' = ''run/ansa_model.key''"
    by (simp add: path_eval)
  have a: "is_junk ''ansa_model.key'' False \<and> (endswith ''ansa_model.key'' ''.key'' \<or> endswith ''ansa_model.key'' ''.k'')"
    by (simp add: junk_eval)
  have k: "endswith ''ansa_model.key'' ''.key''"
    by (simp add: path_eval)
  have d: "fs ansa_disk ''run/ansa_model.key'' = Some (plain_file (concat deck_lines))"
    "removable (plain_file (concat deck_lines))"
    "(fs ansa_disk)(''run/ansa_model.key'' := None) = Map.empty"
    "logged ansa_disk = []"
    by (simp_all add: ansa_disk_def plain_file_def empty_disk_def)
  from a junk_before_key [of "''ansa_model.key''" False "''run''" "[]" 0 ansa_disk]
  have "file_action ''ansa_model.key'' False = Delete
    \<and> walk_files False ''run'' [Some ''ansa_model.key''] (0, ansa_disk) =
       Inr (1, ansa_disk\<lparr>fs := Map.empty, logged := [Info_Removed ''run/ansa_model.key'' 1]\<rparr>)"
    by (simp add: j d)
  with a k show ?thesis by simp
qed

text \<open>
  Claim C8. A file that is not junk is handed to \<open>process_file\<close> if and only if its
  name, as it is written, ends in \<open>.key\<close> or \<open>.k\<close>; otherwise the walker passes on
  with nothing changed. \<open>MODEL.KEY\<close> is not junk and is left untouched.
\<close>

theorem key_suffix_exact:
  "(\<not> is_junk f b \<longrightarrow>
      walk_files b root (Some f # rest) (n, st) =
      (if endswith f ''.key'' \<or> endswith f ''.k''
       then (case process_file (Some (os_path_join root f)) st of
               Inl e \<Rightarrow> Inl (e, st\<lparr>logged := logged st @ [Error_Unhandled (os_path_join root f)]\<rparr>)
             | Inr st' \<Rightarrow> walk_files b root rest (n, st'))
       else walk_files b root rest (n, st)))
   \<and> \<not> is_junk ''MODEL.KEY'' b
   \<and> walk_files b root (Some ''MODEL.KEY'' # rest) (n, st) = walk_files b root rest (n, st)"
proof -
  have "\<not> is_junk ''MODEL.KEY'' b"
    by (simp add: junk_eval)
  moreover have "\<not> endswith_any ''MODEL.KEY'' [''.key'', ''.k'']"
    by (simp add: endswith_any_def endswith_def suffix_to_prefix)
  ultimately show ?thesis
    by (simp add: Let_def endswith_any_key)
qed

theorem key_suffix_exact_witness:
  "\<not> is_junk ''model.key'' False \<and> \<not> is_junk ''MODEL.KEY'' False
   \<and> walk_files False ''run'' [Some ''model.key''] (0, deck_disk) =
       Inr (0, deck_disk\<lparr>fs := [''run/model.key'' \<mapsto> plain_file (''NODE 1 2 3'' @ [CHR 0x0A])],
                         logged := [Info_Processed ''run/model.key'' 2]\<rparr>)
   \<and> walk_files False ''run'' [Some ''MODEL.KEY''] (0, deck_disk) = Inr (0, deck_disk)"
proof -
  have j: "os_path_join ''run'' ''model.key'' = ''run/model.key''"
    by (simp add: path_eval)
  have nj: "\<not> is_junk ''model.key'' False"
    by (simp add: junk_eval)
  have k: "endswith ''model.key'' ''.key''"
    by (simp add: path_eval)
  have h: "fs deck_disk ''run/model.key'' = Some (plain_file (concat deck_lines))"
    by (simp add: deck_disk_def)
  have r: "readable (plain_file (concat deck_lines))" "writable (plain_file (concat deck_lines))"
    "data (plain_file (concat deck_lines)) = Text (concat deck_lines)"
    by (simp_all add: plain_file_def)
  have ne: "''run/model.key'' \<noteq> []" by simp
  have len: "length deck_lines = 3"
    by (simp add: deck_lines_def)
  have p: "process_file (Some ''run/model.key'') deck_disk =
       Inr (deck_disk\<lparr>fs := [''run/model.key'' \<mapsto> plain_file (''NODE 1 2 3'' @ [CHR 0x0A])],
                     logged := [Info_Processed ''run/model.key'' 2]\<rparr>)"
    unfolding process_file_text [OF ne h r]
    by (simp add: readlines_deck kept_deck len) (simp add: deck_disk_def empty_disk_def plain_file_def)
  have step: "walk_files False ''run'' [Some ''model.key''] (0, deck_disk) =
      (if endswith ''model.key'' ''.key'' \<or> endswith ''model.key'' ''.k''
       then (case process_file (Some (os_path_join ''run'' ''model.key'')) deck_disk of
               Inl e \<Rightarrow> Inl (e, deck_disk\<lparr>logged := logged deck_disk @
                                    [Error_Unhandled (os_path_join ''run'' ''model.key'')]\<rparr>)
             | Inr st' \<Rightarrow> walk_files False ''run'' [] (0, st'))
       else walk_files False ''run'' [] (0, deck_disk))"
    using nj key_suffix_exact [of "''model.key''" False "''run''" "[]" 0 deck_disk] by blast
  have upper: "\<not> is_junk ''MODEL.KEY'' False
      \<and> walk_files False ''run'' [Some ''MODEL.KEY''] (0, deck_disk) =
          walk_files False ''run'' [] (0, deck_disk)"
    using key_suffix_exact [of "''MODEL.KEY''" False "''run''" "[]" 0 deck_disk] by blast
  have lowercase: "walk_files False ''run'' [Some ''model.key''] (0, deck_disk) =
       Inr (0, deck_disk\<lparr>fs := [''run/model.key'' \<mapsto> plain_file (''NODE 1 2 3'' @ [CHR 0x0A])],
                         logged := [Info_Processed ''run/model.key'' 2]\<rparr>)"
    unfolding step j using k p by simp
  have uppercase: "walk_files False ''run'' [Some ''MODEL.KEY''] (0, deck_disk) = Inr (0, deck_disk)"
    unfolding conjunct2 [OF upper] by simp
  from nj upper lowercase uppercase show ?thesis by blast
qed

text \<open>
  Claim C9, as amended. \<open>remove_lines_in_files\<close> raises \<open>TypeError\<close> (the
  invalid-argument failure) on \<open>None\<close>, and \<open>FileNotFoundError\<close> on every path that
  is not an existing directory, the empty path included; in both cases nothing has been
  done to the state.
\<close>

theorem directory_checks:
  "remove_lines_in_files None b st = Inl (TypeError, st)
   \<and> (\<not> os_path_isdir st d \<longrightarrow> remove_lines_in_files (Some d) b st = Inl (FileNotFoundError, st))
   \<and> remove_lines_in_files (Some []) b st = Inl (FileNotFoundError, st)"
  by (simp add: remove_lines_in_files_def os_path_isdir_def)

theorem directory_checks_witness:
  "\<not> os_path_isdir vanished_disk ''elsewhere''
   \<and> remove_lines_in_files (Some ''elsewhere'') True vanished_disk = Inl (FileNotFoundError, vanished_disk)"
proof -
  have h: "\<not> os_path_isdir vanished_disk ''elsewhere''"
    by (simp add: os_path_isdir_def vanished_disk_def)
  show ?thesis
    using h directory_checks [of True vanished_disk "''elsewhere''"] by blast
qed

text \<open>
  Claim C9 as the specification words it fails at the empty path: the exception there is
  \<open>FileNotFoundError\<close>, not one of the invalid-argument exceptions.
\<close>

theorem empty_directory_counterexample:
  "remove_lines_in_files (Some '''') False empty_disk = Inl (FileNotFoundError, empty_disk)
   \<and> FileNotFoundError \<noteq> TypeError \<and> FileNotFoundError \<noteq> ValueError"
  by (simp add: remove_lines_in_files_def os_path_isdir_def)

end
